theory Spec2Isabelle
  imports Complex_Main "HOL-Library.Sublist"
begin

section \<open>Python values used by the query module\<close>

text \<open>
  The module \<open>src/knowledge_base/queries.py\<close> is embedded here. Python floats are
  idealised as \<^typ>\<open>real\<close>, Python's unbounded integers are \<^typ>\<open>int\<close>, strings are
  \<^typ>\<open>string\<close> restricted to ASCII. An exception is a value of \<open>exn\<close>; a computation
  that may raise returns \<open>exn + 'a\<close> with \<open>Inl\<close> for the raised exception.
\<close>

datatype exn = ConnectionError | ExecutionError | ValueError

text \<open>
  The value of a \<open>published_date\<close> cell: \<open>None\<close>, a string, or a \<open>date\<close> object
  (year, month, day).
\<close>

datatype pyval = PyNone | PyStr string | PyDate nat nat nat

text \<open>Truthiness as \<open>if v:\<close> tests it.\<close>

fun truthy :: "pyval \<Rightarrow> bool" where
  "truthy PyNone = False"
| "truthy (PyStr s) = (s \<noteq> [])"
| "truthy (PyDate y m d) = True"

subsection \<open>\<open>str\<close> of the integers of an f-string and of dates\<close>

definition digit_char :: "nat \<Rightarrow> char" where
  "digit_char n = char_of (48 + n)"

function str_nat :: "nat \<Rightarrow> string" where
  "str_nat n = (if n < 10 then [digit_char n] else str_nat (n div 10) @ [digit_char (n mod 10)])"
  by pat_completeness auto
termination
  by (relation "measure id") auto

declare str_nat.simps [simp del]

definition zfill :: "nat \<Rightarrow> string \<Rightarrow> string" where
  "zfill k s = replicate (k - length s) (CHR ''0'') @ s"

text \<open>\<open>str(v)\<close>; a \<open>date\<close> prints in ISO format \<open>YYYY-MM-DD\<close>.\<close>

fun py_str :: "pyval \<Rightarrow> string" where
  "py_str PyNone = ''None''"
| "py_str (PyStr s) = s"
| "py_str (PyDate y m d) =
     zfill 4 (str_nat y) @ ''-'' @ zfill 2 (str_nat m) @ ''-'' @ zfill 2 (str_nat d)"

subsection \<open>\<open>str.lower\<close>, \<open>in\<close>, \<open>startswith\<close>, \<open>replace\<close>\<close>

definition lower_char :: "char \<Rightarrow> char" where
  "lower_char c =
     (let n = (of_char c :: nat) in if 65 \<le> n \<and> n \<le> 90 then char_of (n + 32) else c)"

definition lower :: "string \<Rightarrow> string" where
  "lower s = map lower_char s"

text \<open>\<open>needle in hay\<close> on strings is the contiguous-substring test.\<close>

definition py_in :: "string \<Rightarrow> string \<Rightarrow> bool" where
  "py_in needle hay = sublist needle hay"

definition startswith :: "string \<Rightarrow> string \<Rightarrow> bool" where
  "startswith s p = prefix p s"

text \<open>\<open>s.replace("'", "''")\<close>: every single quote is doubled.\<close>

definition escape_quotes :: "string \<Rightarrow> string" where
  "escape_quotes s = concat (map (\<lambda>c. if c = CHR 0x27 then [CHR 0x27, CHR 0x27] else [c]) s)"

subsection \<open>\<open>int\<close> of a string\<close>

text \<open>
  \<open>int(s)\<close> strips surrounding whitespace, accepts one optional sign and then decimal
  digits, where a single underscore may stand between two digits. Anything else raises
  \<open>ValueError\<close>.
\<close>

definition is_space :: "char \<Rightarrow> bool" where
  "is_space c = (let n = (of_char c :: nat) in (9 \<le> n \<and> n \<le> 13) \<or> (28 \<le> n \<and> n \<le> 32))"

definition is_digit :: "char \<Rightarrow> bool" where
  "is_digit c = (let n = (of_char c :: nat) in 48 \<le> n \<and> n \<le> 57)"

definition digit_val :: "char \<Rightarrow> nat" where
  "digit_val c = of_char c - 48"

definition strip :: "string \<Rightarrow> string" where
  "strip s = rev (dropWhile is_space (rev (dropWhile is_space s)))"

fun digits_val :: "nat \<Rightarrow> string \<Rightarrow> nat option" where
  "digits_val acc [] = Some acc"
| "digits_val acc (c # cs) =
     (if is_digit c then digits_val (10 * acc + digit_val c) cs
      else if c = CHR ''_'' then
        (case cs of
           [] \<Rightarrow> None
         | d # ds \<Rightarrow> if is_digit d then digits_val acc cs else None)
      else None)"

definition unsigned_val :: "string \<Rightarrow> nat option" where
  "unsigned_val s =
     (case s of
        [] \<Rightarrow> None
      | c # cs \<Rightarrow> if is_digit c then digits_val 0 s else None)"

definition py_int :: "string \<Rightarrow> exn + int" where
  "py_int s =
     (let t = strip s;
          neg = (case t of [] \<Rightarrow> False | c # cs \<Rightarrow> c = CHR ''-'');
          body = (case t of [] \<Rightarrow> [] | c # cs \<Rightarrow> if c = CHR ''-'' \<or> c = CHR ''+'' then cs else t)
      in case unsigned_val body of
           None \<Rightarrow> Inl ValueError
         | Some n \<Rightarrow> Inr (if neg then - int n else int n))"

section \<open>Relevance normalisation\<close>

text \<open>
  \<open>relevance = max(0, min(1, 1 - (distance / 2)))\<close>, the same expression in the primary
  tier of all three search operations.
\<close>

definition relevance_of_distance :: "real \<Rightarrow> real" where
  "relevance_of_distance distance = max 0 (min 1 (1 - distance / 2))"

section \<open>Rows, records, filters and the two backends\<close>

text \<open>
  A row of a result frame holds the columns the \<open>SELECT\<close> lists name; the knowledge
  base adds the distance column. Since every column read is selected, the defaults of
  \<open>row.get\<close> are never taken and the columns are plain fields.
\<close>

record row =
  r_entry_id :: string
  r_title :: string
  r_summary :: string
  r_authors :: string
  r_published_date :: pyval
  r_pdf_url :: string
  r_categories :: string

record kb_row = row +
  r_distance :: real

text \<open>
  The dictionary a search returns, and the one the point lookup returns (which has no
  \<open>relevance_score\<close> key).
\<close>

record paper_meta =
  entry_id :: string
  title :: string
  summary :: string
  authors :: string
  published_date :: pyval
  pdf_url :: string
  categories :: string

record paper = paper_meta +
  relevance_score :: real

text \<open>
  \<open>metadata_filters\<close>: the keys \<open>authors\<close>, \<open>year\<close> and \<open>categories\<close>, each present or
  absent. A dictionary is truthy when it has a key.
\<close>

record metadata_filters =
  f_authors :: "string option"
  f_year :: "int option"
  f_categories :: "string option"

definition filters_truthy :: "metadata_filters option \<Rightarrow> bool" where
  "filters_truthy mf =
     (case mf of
        None \<Rightarrow> False
      | Some f \<Rightarrow> \<not> (f_authors f = None \<and> f_year f = None \<and> f_categories f = None))"

text \<open>
  The SQL statements the module sends, by shape and interpolated values (the last
  argument of a search request is the number of its \<open>LIMIT\<close> clause), and the two
  external services answering them: a frame of rows, or an exception raised while
  connecting, executing or fetching.
\<close>

datatype kb_request =
    KbPlain string int
  | KbSemantic string real int
  | KbHybrid string int

datatype db_request =
    DbPlain string int
  | DbHybrid string "string option" "int option" "string option" int
  | DbById string

record backends =
  mindsdb :: "kb_request \<Rightarrow> exn + kb_row list"
  duckdb :: "db_request \<Rightarrow> exn + row list"

text \<open>\<open>str(row['published_date']) if row['published_date'] else None\<close>\<close>

definition date_field :: "pyval \<Rightarrow> pyval" where
  "date_field v = (if truthy v then PyStr (py_str v) else PyNone)"

definition paper_of_row :: "real \<Rightarrow> 'a row_scheme \<Rightarrow> paper" where
  "paper_of_row relevance r =
     \<lparr>entry_id = r_entry_id r, title = r_title r, summary = r_summary r,
      authors = r_authors r, published_date = date_field (r_published_date r),
      pdf_url = r_pdf_url r, categories = r_categories r,
      relevance_score = relevance\<rparr>"

section \<open>Plain search: \<open>_query_papers_sync\<close>\<close>

definition kb_search :: "backends \<Rightarrow> string \<Rightarrow> int \<Rightarrow> exn + paper list" where
  "kb_search env query limit =
     (case mindsdb env (KbPlain (escape_quotes query) limit) of
        Inl e \<Rightarrow> Inl e
      | Inr result \<Rightarrow>
          Inr (map (\<lambda>r. paper_of_row (relevance_of_distance (r_distance r)) r) result))"

definition text_search :: "backends \<Rightarrow> string \<Rightarrow> int \<Rightarrow> exn + paper list" where
  "text_search env query limit =
     (case duckdb env (DbPlain (escape_quotes query) limit) of
        Inl e \<Rightarrow> Inl e
      | Inr result \<Rightarrow> Inr (map (paper_of_row (75 / 100)) result))"

definition sample_paper :: "string \<Rightarrow> nat \<Rightarrow> paper" where
  "sample_paper query i =
     \<lparr>entry_id = ''arxiv-sample-'' @ str_nat i,
      title = ''Sample Paper '' @ str_nat i @ '': '' @ query,
      summary = ''This is a sample summary for paper '' @ str_nat i @ '' related to ''
        @ query @ ''. ''
        @ ''In a production environment, this would be real paper data from ArXiv.'',
      authors = ''John Doe, Jane Smith'',
      published_date = PyStr (py_str (PyDate 2024 1 1)),
      pdf_url = ''https://arxiv.org/pdf/sample'' @ str_nat i @ ''.pdf'',
      categories = ''cs.LG, cs.AI'',
      relevance_score = 95 / 100 - real i * (5 / 100)\<rparr>"

text \<open>\<open>[... for i in range(1, min(limit + 1, 6))]\<close>\<close>

definition sample_papers :: "string \<Rightarrow> int \<Rightarrow> paper list" where
  "sample_papers query limit = map (sample_paper query) [1 ..< nat (min (limit + 1) 6)]"

definition query_papers_sync :: "backends \<Rightarrow> string \<Rightarrow> int \<Rightarrow> exn + paper list" where
  "query_papers_sync env query limit =
     (case kb_search env query limit of
        Inr papers \<Rightarrow> Inr papers
      | Inl e \<Rightarrow>
          (case text_search env query limit of
             Inr papers \<Rightarrow> Inr papers
           | Inl db_error \<Rightarrow> Inr (sample_papers query limit)))"

section \<open>Threshold search: \<open>_semantic_search_sync\<close>\<close>

definition kb_semantic_search :: "backends \<Rightarrow> string \<Rightarrow> real \<Rightarrow> exn + paper list" where
  "kb_semantic_search env query threshold =
     (case mindsdb env (KbSemantic (escape_quotes query) threshold 50) of
        Inl e \<Rightarrow> Inl e
      | Inr result \<Rightarrow>
          Inr (filter (\<lambda>p. threshold \<le> relevance_score p)
                 (map (\<lambda>r. paper_of_row (relevance_of_distance (r_distance r)) r) result)))"

definition semantic_search_sync :: "backends \<Rightarrow> string \<Rightarrow> real \<Rightarrow> exn + paper list" where
  "semantic_search_sync env query threshold =
     (case kb_semantic_search env query threshold of
        Inr papers \<Rightarrow> Inr papers
      | Inl e \<Rightarrow>
          (case query_papers_sync env query 50 of
             Inl e' \<Rightarrow> Inl e'
           | Inr results \<Rightarrow> Inr (filter (\<lambda>r. threshold \<le> relevance_score r) results)))"

section \<open>Hybrid search: \<open>_hybrid_search_sync\<close>\<close>

definition authors_match :: "metadata_filters \<Rightarrow> string \<Rightarrow> bool" where
  "authors_match f a =
     (case f_authors f of None \<Rightarrow> True | Some x \<Rightarrow> py_in (lower x) (lower a))"

definition categories_match :: "metadata_filters \<Rightarrow> string \<Rightarrow> bool" where
  "categories_match f c =
     (case f_categories f of None \<Rightarrow> True | Some x \<Rightarrow> py_in (lower x) (lower c))"

text \<open>\<open>int(str(pub_date)[:4]) if str(pub_date) else 0\<close>\<close>

definition row_year :: "pyval \<Rightarrow> exn + int" where
  "row_year pub_date =
     (if py_str pub_date \<noteq> [] then py_int (take 4 (py_str pub_date)) else Inr 0)"

text \<open>
  The year test of the primary tier's loop: \<open>Inr False\<close> is the \<open>continue\<close>, \<open>Inl\<close>
  the exception of \<open>int\<close>. A falsy date skips the test.
\<close>

definition kb_year_check :: "metadata_filters \<Rightarrow> pyval \<Rightarrow> exn + bool" where
  "kb_year_check f pub_date =
     (case f_year f of
        None \<Rightarrow> Inr True
      | Some y \<Rightarrow>
          if truthy pub_date then
            (case row_year pub_date of Inl e \<Rightarrow> Inl e | Inr year \<Rightarrow> Inr (\<not> year < y))
          else Inr True)"

definition kb_row_keep :: "metadata_filters option \<Rightarrow> kb_row \<Rightarrow> exn + bool" where
  "kb_row_keep mf r =
     (case mf of
        None \<Rightarrow> Inr True
      | Some f \<Rightarrow>
          if \<not> filters_truthy mf then Inr True
          else if \<not> authors_match f (r_authors r) then Inr False
          else
            (case kb_year_check f (r_published_date r) of
               Inl e \<Rightarrow> Inl e
             | Inr ok \<Rightarrow>
                 if \<not> ok then Inr False
                 else Inr (categories_match f (r_categories r))))"

fun kb_hybrid_rows :: "metadata_filters option \<Rightarrow> kb_row list \<Rightarrow> exn + paper list" where
  "kb_hybrid_rows mf [] = Inr []"
| "kb_hybrid_rows mf (r # rs) =
     (case kb_row_keep mf r of
        Inl e \<Rightarrow> Inl e
      | Inr keep \<Rightarrow>
          (case kb_hybrid_rows mf rs of
             Inl e \<Rightarrow> Inl e
           | Inr papers \<Rightarrow>
               Inr (if keep then paper_of_row (relevance_of_distance (r_distance r)) r # papers
                    else papers)))"

definition kb_hybrid_search ::
  "backends \<Rightarrow> string \<Rightarrow> metadata_filters option \<Rightarrow> exn + paper list" where
  "kb_hybrid_search env query mf =
     (case mindsdb env (KbHybrid (escape_quotes query) 50) of
        Inl e \<Rightarrow> Inl e
      | Inr result \<Rightarrow> kb_hybrid_rows mf result)"

text \<open>The secondary tier pushes the filters into the SQL text, each value escaped.\<close>

definition db_hybrid_request :: "string \<Rightarrow> metadata_filters option \<Rightarrow> db_request" where
  "db_hybrid_request query mf =
     (case mf of
        None \<Rightarrow> DbHybrid (escape_quotes query) None None None 50
      | Some f \<Rightarrow>
          DbHybrid (escape_quotes query)
            (map_option escape_quotes (f_authors f)) (f_year f)
            (map_option escape_quotes (f_categories f)) 50)"

definition db_hybrid_search ::
  "backends \<Rightarrow> string \<Rightarrow> metadata_filters option \<Rightarrow> exn + paper list" where
  "db_hybrid_search env query mf =
     (case duckdb env (db_hybrid_request query mf) of
        Inl e \<Rightarrow> Inl e
      | Inr result \<Rightarrow> Inr (map (paper_of_row (85 / 100)) result))"

text \<open>
  The last handler filters the records of \<open>_query_papers_sync(query, 50)\<close> in memory.
  The year of a record: \<open>int(pub_date[:4])\<close> of a string, \<open>.year\<close> of a date, 2024
  otherwise.
\<close>

definition paper_year :: "pyval \<Rightarrow> exn + int" where
  "paper_year pub_date =
     (case pub_date of
        PyStr s \<Rightarrow> py_int (take 4 s)
      | PyDate y m d \<Rightarrow> Inr (int y)
      | PyNone \<Rightarrow> Inr 2024)"

definition paper_match :: "metadata_filters \<Rightarrow> paper \<Rightarrow> exn + bool" where
  "paper_match f result =
     (let match = authors_match f (authors result) in
      case f_year f of
        None \<Rightarrow> Inr match
      | Some year_filter \<Rightarrow>
          if match \<and> truthy (published_date result) then
            (case paper_year (published_date result) of
               Inl e \<Rightarrow> Inl e
             | Inr pub_year \<Rightarrow> Inr (\<not> pub_year < year_filter))
          else Inr match)"

fun post_filter :: "metadata_filters \<Rightarrow> paper list \<Rightarrow> exn + paper list" where
  "post_filter f [] = Inr []"
| "post_filter f (result # results) =
     (case paper_match f result of
        Inl e \<Rightarrow> Inl e
      | Inr match \<Rightarrow>
          (case post_filter f results of
             Inl e \<Rightarrow> Inl e
           | Inr filtered_results \<Rightarrow>
               Inr (if match then result # filtered_results else filtered_results)))"

definition hybrid_search_sync ::
  "backends \<Rightarrow> string \<Rightarrow> metadata_filters option \<Rightarrow> exn + paper list" where
  "hybrid_search_sync env query mf =
     (case kb_hybrid_search env query mf of
        Inr papers \<Rightarrow> Inr papers
      | Inl e \<Rightarrow>
          (case db_hybrid_search env query mf of
             Inr papers \<Rightarrow> Inr papers
           | Inl e' \<Rightarrow>
               (case query_papers_sync env query 50 of
                  Inl e'' \<Rightarrow> Inl e''
                | Inr results \<Rightarrow>
                    (case mf of
                       None \<Rightarrow> Inr results
                     | Some f \<Rightarrow>
                         if filters_truthy mf then post_filter f results
                         else Inr results))))"

section \<open>Point lookup: \<open>_get_paper_by_id_sync\<close>\<close>

definition meta_of_row :: "row \<Rightarrow> paper_meta" where
  "meta_of_row r =
     \<lparr>entry_id = r_entry_id r, title = r_title r, summary = r_summary r,
      authors = r_authors r, published_date = date_field (r_published_date r),
      pdf_url = r_pdf_url r, categories = r_categories r\<rparr>"

definition sample_meta :: "string \<Rightarrow> paper_meta" where
  "sample_meta eid =
     \<lparr>entry_id = eid,
      title = ''Sample Paper for '' @ eid,
      summary = ''This is a detailed summary of the paper.'',
      authors = ''John Doe, Jane Smith'',
      published_date = PyDate 2024 1 1,
      pdf_url = ''https://arxiv.org/pdf/'' @ eid @ ''.pdf'',
      categories = ''cs.LG, cs.AI''\<rparr>"

definition get_paper_by_id_sync :: "backends \<Rightarrow> string \<Rightarrow> exn + paper_meta option" where
  "get_paper_by_id_sync env eid =
     (case duckdb env (DbById (escape_quotes eid)) of
        Inr result \<Rightarrow>
          (case result of
             [] \<Rightarrow> Inr None
           | r # rs \<Rightarrow> Inr (Some (meta_of_row r)))
      | Inl e \<Rightarrow>
          if startswith eid ''arxiv-'' then Inr (Some (sample_meta eid)) else Inr None)"

section \<open>SQL engines and the \<open>LIMIT\<close> clause\<close>

text \<open>
  The module bounds the size of a result only through the \<open>LIMIT\<close> clause of the SQL it
  sends. An SQL engine executing \<open>LIMIT n\<close> returns the first n rows of what the query
  selects. \<open>sql_engine raw\<close> is the pair of services that select what \<open>raw\<close> selects and
  execute the \<open>LIMIT\<close> clause of each request; a request without the clause (the point
  lookup) and a negative number are passed through unchanged.
\<close>

definition sql_limit :: "int \<Rightarrow> 'a list \<Rightarrow> 'a list" where
  "sql_limit n rows = (if 0 \<le> n then take (nat n) rows else rows)"

fun kb_limit :: "kb_request \<Rightarrow> int" where
  "kb_limit (KbPlain q n) = n"
| "kb_limit (KbSemantic q t n) = n"
| "kb_limit (KbHybrid q n) = n"

fun db_limit :: "db_request \<Rightarrow> int option" where
  "db_limit (DbPlain q n) = Some n"
| "db_limit (DbHybrid q a y c n) = Some n"
| "db_limit (DbById e) = None"

definition sql_engine :: "backends \<Rightarrow> backends" where
  "sql_engine raw =
     \<lparr>mindsdb = (\<lambda>req. map_sum id (sql_limit (kb_limit req)) (mindsdb raw req)),
      duckdb = (\<lambda>req.
        case db_limit req of
          None \<Rightarrow> duckdb raw req
        | Some n \<Rightarrow> map_sum id (sql_limit n) (duckdb raw req))\<rparr>"

section \<open>Concrete backends and filters\<close>

text \<open>
  Small backends on which the operations are run below: services that are unreachable, an
  index that answers with given rows, a store that answers the plain text query but not
  the filtered one.
\<close>

definition kb_down :: "kb_request \<Rightarrow> exn + kb_row list" where
  "kb_down req = Inl ConnectionError"

definition db_down :: "db_request \<Rightarrow> exn + row list" where
  "db_down req = Inl ConnectionError"

definition all_down :: backends where
  "all_down = \<lparr>mindsdb = kb_down, duckdb = db_down\<rparr>"

definition example_row :: "pyval \<Rightarrow> row" where
  "example_row d =
     \<lparr>r_entry_id = ''2101.00001'', r_title = ''Graph Networks'', r_summary = ''A survey.'',
      r_authors = ''Alice Smith'', r_published_date = d,
      r_pdf_url = ''https://arxiv.org/pdf/2101.00001'', r_categories = ''cs.LG''\<rparr>"

definition example_kb_row :: "pyval \<Rightarrow> real \<Rightarrow> kb_row" where
  "example_kb_row d dst =
     \<lparr>r_entry_id = ''2101.00001'', r_title = ''Graph Networks'', r_summary = ''A survey.'',
      r_authors = ''Alice Smith'', r_published_date = d,
      r_pdf_url = ''https://arxiv.org/pdf/2101.00001'', r_categories = ''cs.LG'',
      r_distance = dst\<rparr>"

definition text_store :: "db_request \<Rightarrow> exn + row list" where
  "text_store req =
     (case req of
        DbPlain q n \<Rightarrow> Inr [example_row (PyStr ''n/a'')]
      | DbHybrid q a y c n \<Rightarrow> Inl ExecutionError
      | DbById e \<Rightarrow> Inr [])"

definition text_store_only :: backends where
  "text_store_only = \<lparr>mindsdb = kb_down, duckdb = text_store\<rparr>"

definition year_2020 :: metadata_filters where
  "year_2020 = \<lparr>f_authors = None, f_year = Some 2020, f_categories = None\<rparr>"

definition math_only :: metadata_filters where
  "math_only = \<lparr>f_authors = None, f_year = None, f_categories = Some ''math''\<rparr>"

definition kb_undated :: "kb_request \<Rightarrow> exn + kb_row list" where
  "kb_undated req = Inr [example_kb_row PyNone (1 / 2)]"

definition undated_index :: backends where
  "undated_index = \<lparr>mindsdb = kb_undated, duckdb = db_down\<rparr>"

definition db_one_hit :: "db_request \<Rightarrow> exn + row list" where
  "db_one_hit req = Inr [example_row (PyStr ''2021-03-04'')]"

definition lexical_only :: backends where
  "lexical_only = \<lparr>mindsdb = kb_down, duckdb = db_one_hit\<rparr>"

definition kb_empty :: "kb_request \<Rightarrow> exn + kb_row list" where
  "kb_empty req = Inr []"

definition empty_index :: backends where
  "empty_index = \<lparr>mindsdb = kb_empty, duckdb = db_one_hit\<rparr>"

definition undated_paper :: paper where
  "undated_paper = paper_of_row (3 / 4) (example_row PyNone)"

definition two_row_kb :: "kb_request \<Rightarrow> exn + kb_row list" where
  "two_row_kb req =
     Inr [example_kb_row (PyDate 2021 3 4) (1 / 5), example_kb_row PyNone (1 / 2)]"

definition two_row_index :: backends where
  "two_row_index = \<lparr>mindsdb = two_row_kb, duckdb = db_down\<rparr>"

definition two_row_store :: "db_request \<Rightarrow> exn + row list" where
  "two_row_store req =
     (case req of
        DbPlain q n \<Rightarrow> Inr [example_row (PyStr ''2021-03-04''), example_row PyNone]
      | DbHybrid q a y c n \<Rightarrow> Inl ExecutionError
      | DbById e \<Rightarrow> Inr [])"

definition two_row_store_only :: backends where
  "two_row_store_only = \<lparr>mindsdb = kb_down, duckdb = two_row_store\<rparr>"

definition dated_paper :: paper where
  "dated_paper = paper_of_row (3 / 4) (example_row (PyStr ''2021-03-04''))"

section \<open>Auxiliary facts\<close>

lemma str_nat_small:
  "str_nat (Suc 0) = ''1''" "str_nat 2 = ''2''" "str_nat 3 = ''3''" "str_nat 4 = ''4''"
  "str_nat 5 = ''5''"
  by code_simp+

lemma py_int_na: "py_int ''n/a'' = Inl ValueError"
  by code_simp

lemma sample_papers_length: "length (sample_papers q limit) = nat (min limit 5)"
  by (simp add: sample_papers_def min_def) arith

lemma sample_papers_5: "5 \<le> limit \<Longrightarrow>
  sample_papers q limit =
    [sample_paper q 1, sample_paper q 2, sample_paper q 3, sample_paper q 4, sample_paper q 5]"
  by (simp add: sample_papers_def min_def upt_rec numeral_eq_Suc)

lemma sample_papers_ids:
  "5 \<le> limit \<Longrightarrow> map entry_id (sample_papers q limit) =
     [''arxiv-sample-1'', ''arxiv-sample-2'', ''arxiv-sample-3'', ''arxiv-sample-4'',
      ''arxiv-sample-5'']"
  by (simp add: sample_papers_5 sample_paper_def str_nat_small)

lemma sample_papers_scores:
  "5 \<le> limit \<Longrightarrow>
     map relevance_score (sample_papers q limit) = [9 / 10, 17 / 20, 4 / 5, 3 / 4, 7 / 10]"
  by (simp add: sample_papers_5 sample_paper_def)

lemma sample_paper_prefix: "startswith (entry_id (sample_paper q i)) ''arxiv-sample-''"
  by (simp add: sample_paper_def startswith_def)

lemma both_tiers_fail:
  "kb_search env q n = Inl e1 \<Longrightarrow> text_search env q n = Inl e2
   \<Longrightarrow> query_papers_sync env q n = Inr (sample_papers q n)"
  by (simp add: query_papers_sync_def)

lemma query_papers_sync_returns: "\<exists>ps. query_papers_sync env q n = Inr ps"
  by (simp add: query_papers_sync_def split: sum.splits)

lemma semantic_search_sync_returns: "\<exists>ps. semantic_search_sync env q t = Inr ps"
  using query_papers_sync_returns [of env q 50]
  by (auto simp: semantic_search_sync_def split: sum.splits)

lemma post_filter_no_author_year:
  "f_authors f = None \<Longrightarrow> f_year f = None \<Longrightarrow> post_filter f ps = Inr ps"
  by (induction ps) (simp_all add: paper_match_def authors_match_def)

lemma kb_hybrid_rows_keeps:
  "kb_hybrid_rows mf rows = Inr ps \<Longrightarrow> r \<in> set rows \<Longrightarrow> kb_row_keep mf r = Inr True
   \<Longrightarrow> paper_of_row (relevance_of_distance (r_distance r)) r \<in> set ps"
proof (induction rows arbitrary: ps)
  case Nil
  then show ?case by simp
next
  case (Cons x xs)
  then show ?case
    by (auto split: sum.splits if_splits)
qed

lemma sql_limit_length: "0 \<le> n \<Longrightarrow> length (sql_limit n rows) \<le> nat n"
  by (simp add: sql_limit_def)

lemma kb_frame_capped:
  "mindsdb (sql_engine raw) req = Inr rows \<Longrightarrow> 0 \<le> kb_limit req
   \<Longrightarrow> length rows \<le> nat (kb_limit req)"
  by (cases "mindsdb raw req") (auto simp: sql_engine_def sql_limit_length)

lemma db_frame_capped:
  "duckdb (sql_engine raw) req = Inr rows \<Longrightarrow> db_limit req = Some n \<Longrightarrow> 0 \<le> n
   \<Longrightarrow> length rows \<le> nat n"
  by (cases "duckdb raw req") (auto simp: sql_engine_def sql_limit_length)

lemma kb_semantic_search_capped:
  assumes "kb_semantic_search (sql_engine raw) q t = Inr ps"
  shows "length ps \<le> 50"
proof -
  obtain rows where rows: "mindsdb (sql_engine raw) (KbSemantic (escape_quotes q) t 50) = Inr rows"
    and ps: "ps = filter (\<lambda>p. t \<le> relevance_score p)
      (map (\<lambda>r. paper_of_row (relevance_of_distance (r_distance r)) r) rows)"
    using assms by (auto simp: kb_semantic_search_def split: sum.splits)
  from rows have "length rows \<le> nat 50"
    using kb_frame_capped [of raw "KbSemantic (escape_quotes q) t 50" rows] by simp
  then have "length (map (\<lambda>r. paper_of_row (relevance_of_distance (r_distance r)) r) rows) \<le> 50"
    by simp
  then show ?thesis
    unfolding ps by (rule order_trans [OF length_filter_le])
qed

lemma query_papers_sync_capped:
  assumes "query_papers_sync (sql_engine raw) q n = Inr ps" and "5 \<le> n"
  shows "length ps \<le> nat n"
proof (cases "kb_search (sql_engine raw) q n")
  case (Inr ps')
  then obtain rows where
    rows: "mindsdb (sql_engine raw) (KbPlain (escape_quotes q) n) = Inr rows"
    and "ps' = map (\<lambda>r. paper_of_row (relevance_of_distance (r_distance r)) r) rows"
    by (auto simp: kb_search_def split: sum.splits)
  moreover from Inr assms(1) have "ps = ps'"
    by (simp add: query_papers_sync_def)
  moreover from rows assms(2) have "length rows \<le> nat n"
    using kb_frame_capped [of raw "KbPlain (escape_quotes q) n" rows] by simp
  ultimately show ?thesis by simp
next
  case kb: (Inl e)
  show ?thesis
  proof (cases "text_search (sql_engine raw) q n")
    case (Inr ps')
    then obtain rows where
      rows: "duckdb (sql_engine raw) (DbPlain (escape_quotes q) n) = Inr rows"
      and "ps' = map (paper_of_row (75 / 100)) rows"
      by (auto simp: text_search_def split: sum.splits)
    moreover from kb Inr assms(1) have "ps = ps'"
      by (simp add: query_papers_sync_def)
    moreover from rows assms(2) have "length rows \<le> nat n"
      using db_frame_capped [of raw "DbPlain (escape_quotes q) n" rows n] by simp
    ultimately show ?thesis by simp
  next
    case (Inl e')
    with kb assms(1) have "ps = sample_papers q n"
      by (simp add: query_papers_sync_def)
    with assms(2) show ?thesis
      by (simp add: sample_papers_length)
  qed
qed

lemma py_str_truthy: "truthy d \<Longrightarrow> py_str d \<noteq> []"
  by (cases d) simp_all

lemma paper_year_date_field:
  "truthy d \<Longrightarrow> truthy (date_field d) \<and> paper_year (date_field d) = row_year d"
  by (simp add: date_field_def paper_year_def row_year_def py_str_truthy)

lemma date_field_truthy: "truthy (date_field d) \<Longrightarrow> truthy d"
  by (simp add: date_field_def split: if_splits)

lemma kb_row_keep_year:
  assumes "f_year f = Some y" and "kb_row_keep (Some f) r = Inr True"
    and "truthy (r_published_date r)"
  shows "\<exists>yr. row_year (r_published_date r) = Inr yr \<and> y \<le> yr"
  using assms
  by (auto simp: kb_row_keep_def filters_truthy_def kb_year_check_def
      split: if_splits sum.splits)

lemma paper_match_year:
  assumes "f_year f = Some y" and "paper_match f p = Inr True"
    and "truthy (published_date p)"
  shows "\<exists>yr. paper_year (published_date p) = Inr yr \<and> y \<le> yr"
  using assms
  by (auto simp: paper_match_def Let_def split: if_splits sum.splits)

lemma kb_hybrid_rows_sound:
  "kb_hybrid_rows mf rows = Inr ps \<Longrightarrow> p \<in> set ps
   \<Longrightarrow> \<exists>r. r \<in> set rows \<and> kb_row_keep mf r = Inr True
         \<and> p = paper_of_row (relevance_of_distance (r_distance r)) r"
proof (induction rows arbitrary: ps)
  case Nil
  then show ?case by simp
next
  case (Cons x xs)
  then show ?case
    by (fastforce split: sum.splits if_splits)
qed

lemma post_filter_sound:
  "post_filter f rs = Inr ps \<Longrightarrow> p \<in> set ps \<Longrightarrow> p \<in> set rs \<and> paper_match f p = Inr True"
proof (induction rs arbitrary: ps)
  case Nil
  then show ?case by simp
next
  case (Cons x xs)
  then show ?case
    by (fastforce split: sum.splits if_splits)
qed

lemma post_filter_keeps:
  "post_filter f rs = Inr ps \<Longrightarrow> p \<in> set rs \<Longrightarrow> paper_match f p = Inr True \<Longrightarrow> p \<in> set ps"
proof (induction rs arbitrary: ps)
  case Nil
  then show ?case by simp
next
  case (Cons x xs)
  then show ?case
    by (auto split: sum.splits if_splits)
qed

lemma hybrid_last_handler:
  assumes "kb_hybrid_search env q (Some f) = Inl e1"
    and "db_hybrid_search env q (Some f) = Inl e2"
    and "f_year f = Some y"
    and "query_papers_sync env q 50 = Inr rs"
  shows "hybrid_search_sync env q (Some f) = post_filter f rs"
  using assms by (simp add: hybrid_search_sync_def filters_truthy_def)

lemma date_examples:
  "date_field (PyDate 2021 3 4) = PyStr ''2021-03-04''"
  "date_field (PyStr ''2021-03-04'') = PyStr ''2021-03-04''"
  "date_field PyNone = PyNone"
  "row_year (PyDate 2021 3 4) = Inr 2021"
  "paper_year (PyStr ''2021-03-04'') = Inr 2021"
  by code_simp+

lemma year_2020_only:
  "authors_match year_2020 a" "categories_match year_2020 c" "f_year year_2020 = Some 2020"
  "filters_truthy (Some year_2020)"
  by (simp_all add: authors_match_def categories_match_def year_2020_def filters_truthy_def)

section \<open>Properties\<close>

text \<open>
  C1. The specification has no search operation ever surface a failure. Plain search
  and threshold search indeed always return a list. Hybrid search does not: with both of
  its own tiers failing, its last handler filters the records of plain search in memory
  and calls \<open>int(pub_date[:4])\<close> outside any \<open>try\<close>. With the index unreachable, the
  filtered store query failing and the plain store query returning a record dated
  \<open>n/a\<close>, a year filter makes hybrid search raise \<open>ValueError\<close>.
\<close>

theorem C1_hybrid_fallback_raises:
  "(\<exists>ps. query_papers_sync env q n = Inr ps)
   \<and> (\<exists>ps. semantic_search_sync env q t = Inr ps)
   \<and> hybrid_search_sync text_store_only ''graph'' (Some year_2020) = Inl ValueError"
proof -
  have plain: "query_papers_sync text_store_only ''graph'' 50
      = Inr [paper_of_row (75 / 100) (example_row (PyStr ''n/a''))]"
    by (simp add: query_papers_sync_def kb_search_def text_search_def text_store_only_def
        kb_down_def text_store_def)
  have year: "paper_year (PyStr ''n/a'') = Inl ValueError"
    by (simp add: paper_year_def py_int_na)
  have "paper_match year_2020 (paper_of_row (75 / 100) (example_row (PyStr ''n/a'')))
      = Inl ValueError"
    by (simp add: paper_match_def authors_match_def year_2020_def paper_of_row_def
        example_row_def date_field_def year)
  then have "post_filter year_2020 [paper_of_row (75 / 100) (example_row (PyStr ''n/a''))]
      = Inl ValueError"
    by simp
  with plain have "hybrid_search_sync text_store_only ''graph'' (Some year_2020)
      = Inl ValueError"
    by (simp add: hybrid_search_sync_def kb_hybrid_search_def db_hybrid_search_def
        db_hybrid_request_def text_store_only_def kb_down_def text_store_def
        filters_truthy_def year_2020_def)
  then show ?thesis
    by (intro conjI query_papers_sync_returns semantic_search_sync_returns)
qed

text \<open>
  C2, as stated, fails: with a minimum year of 2020 and an index row whose date is
  \<open>None\<close>, hybrid search returns the record built from that row.
\<close>

theorem C2_undated_record_returned:
  "hybrid_search_sync undated_index ''graph'' (Some year_2020)
     = Inr [paper_of_row (3 / 4) (example_kb_row PyNone (1 / 2))]
   \<and> published_date (paper_of_row (3 / 4) (example_kb_row PyNone (1 / 2))) = PyNone
   \<and> f_year year_2020 = Some 2020"
  by (simp add: hybrid_search_sync_def kb_hybrid_search_def undated_index_def kb_undated_def
      kb_row_keep_def filters_truthy_def year_2020_def authors_match_def categories_match_def
      kb_year_check_def example_kb_row_def relevance_of_distance_def paper_of_row_def
      date_field_def)

text \<open>
  C2, amended. For every record and every filter set in which the minimum-year filter is
  present, in the two tiers of hybrid search that filter in memory (the loop of the
  primary tier and the last handler):
  a record whose publication date is missing (\<open>None\<close> or empty) is not rejected by the
  year test; it is kept whenever the authors and categories tests hold (in the primary
  tier exactly then) and is then among the records hybrid search returns;
  a record whose publication date is present is among the returned records only if the
  first four characters of the date parse to a year of at least the minimum, so a record
  with an unparseable date is never returned.
\<close>

theorem C2_year_filter_missing_and_unparseable:
  assumes "f_year f = Some y"
  shows
    "(\<not> truthy (r_published_date r)
        \<longrightarrow> kb_row_keep (Some f) r
            = Inr (authors_match f (r_authors r) \<and> categories_match f (r_categories r)))
     \<and> (\<not> truthy (r_published_date r)
          \<and> authors_match f (r_authors r) \<and> categories_match f (r_categories r)
          \<and> mindsdb env (KbHybrid (escape_quotes q) 50) = Inr rows \<and> r \<in> set rows
          \<and> kb_hybrid_search env q (Some f) = Inr ps
        \<longrightarrow> hybrid_search_sync env q (Some f) = Inr ps
            \<and> paper_of_row (relevance_of_distance (r_distance r)) r \<in> set ps)
     \<and> (\<not> truthy (published_date p)
          \<and> authors_match f (authors p) \<and> categories_match f (categories p)
        \<longrightarrow> paper_match f p = Inr True)
     \<and> (\<not> truthy (published_date p)
          \<and> authors_match f (authors p) \<and> categories_match f (categories p)
          \<and> kb_hybrid_search env q (Some f) = Inl ea \<and> db_hybrid_search env q (Some f) = Inl eb
          \<and> query_papers_sync env q 50 = Inr rs \<and> p \<in> set rs
          \<and> hybrid_search_sync env q (Some f) = Inr ps
        \<longrightarrow> p \<in> set ps)
     \<and> (kb_hybrid_search env q (Some f) = Inr ps \<and> p' \<in> set ps
          \<and> truthy (published_date p')
        \<longrightarrow> hybrid_search_sync env q (Some f) = Inr ps
            \<and> (\<exists>yr. paper_year (published_date p') = Inr yr \<and> y \<le> yr))
     \<and> (kb_hybrid_search env q (Some f) = Inl ea \<and> db_hybrid_search env q (Some f) = Inl eb
          \<and> hybrid_search_sync env q (Some f) = Inr ps \<and> p' \<in> set ps
          \<and> truthy (published_date p')
        \<longrightarrow> (\<exists>yr. paper_year (published_date p') = Inr yr \<and> y \<le> yr))"
proof -
  have keep: "kb_row_keep (Some f) r
      = Inr (authors_match f (r_authors r) \<and> categories_match f (r_categories r))"
    if "\<not> truthy (r_published_date r)"
    using assms that by (simp add: kb_row_keep_def filters_truthy_def kb_year_check_def)
  have ret: "hybrid_search_sync env q (Some f) = Inr ps
      \<and> paper_of_row (relevance_of_distance (r_distance r)) r \<in> set ps"
    if d: "\<not> truthy (r_published_date r)"
      and a: "authors_match f (r_authors r)" and c: "categories_match f (r_categories r)"
      and m: "mindsdb env (KbHybrid (escape_quotes q) 50) = Inr rows" and i: "r \<in> set rows"
      and k: "kb_hybrid_search env q (Some f) = Inr ps"
  proof -
    from k m have rows: "kb_hybrid_rows (Some f) rows = Inr ps"
      by (simp add: kb_hybrid_search_def)
    from keep [OF d] a c have "kb_row_keep (Some f) r = Inr True" by simp
    with rows i have "paper_of_row (relevance_of_distance (r_distance r)) r \<in> set ps"
      by (rule kb_hybrid_rows_keeps)
    with k show ?thesis by (simp add: hybrid_search_sync_def)
  qed
  have pm: "paper_match f p = Inr True"
    if "\<not> truthy (published_date p)" and "authors_match f (authors p)"
    using assms that by (simp add: paper_match_def)
  have last_keep: "p \<in> set ps"
    if d: "\<not> truthy (published_date p)" and a: "authors_match f (authors p)"
      and k: "kb_hybrid_search env q (Some f) = Inl ea"
      and b: "db_hybrid_search env q (Some f) = Inl eb"
      and rs: "query_papers_sync env q 50 = Inr rs" and i: "p \<in> set rs"
      and h: "hybrid_search_sync env q (Some f) = Inr ps"
  proof -
    from hybrid_last_handler [OF k b assms rs] h have "post_filter f rs = Inr ps" by simp
    from this i pm [OF d a] show ?thesis by (rule post_filter_keeps)
  qed
  have kb_sound: "hybrid_search_sync env q (Some f) = Inr ps
      \<and> (\<exists>yr. paper_year (published_date p') = Inr yr \<and> y \<le> yr)"
    if k: "kb_hybrid_search env q (Some f) = Inr ps" and i: "p' \<in> set ps"
      and t: "truthy (published_date p')"
  proof -
    from k obtain rows where "kb_hybrid_rows (Some f) rows = Inr ps"
      by (auto simp: kb_hybrid_search_def split: sum.splits)
    from kb_hybrid_rows_sound [OF this i] obtain r0 where
      r0: "kb_row_keep (Some f) r0 = Inr True"
        "p' = paper_of_row (relevance_of_distance (r_distance r0)) r0"
      by blast
    from r0(2) have pd: "published_date p' = date_field (r_published_date r0)"
      by (simp add: paper_of_row_def)
    with t have tr: "truthy (r_published_date r0)"
      by (simp add: date_field_truthy)
    from kb_row_keep_year [OF assms r0(1) tr] paper_year_date_field [OF tr] pd
    have "\<exists>yr. paper_year (published_date p') = Inr yr \<and> y \<le> yr" by simp
    with k show ?thesis by (simp add: hybrid_search_sync_def)
  qed
  have last_sound: "\<exists>yr. paper_year (published_date p') = Inr yr \<and> y \<le> yr"
    if k: "kb_hybrid_search env q (Some f) = Inl ea"
      and b: "db_hybrid_search env q (Some f) = Inl eb"
      and h: "hybrid_search_sync env q (Some f) = Inr ps" and i: "p' \<in> set ps"
      and t: "truthy (published_date p')"
  proof -
    obtain rs' where rs': "query_papers_sync env q 50 = Inr rs'"
      using query_papers_sync_returns by blast
    from hybrid_last_handler [OF k b assms rs'] h have "post_filter f rs' = Inr ps" by simp
    from post_filter_sound [OF this i] have "paper_match f p' = Inr True" by simp
    from paper_match_year [OF assms this t] show ?thesis .
  qed
  from keep ret pm last_keep kb_sound last_sound show ?thesis by blast
qed

text \<open>
  The amended C2 with a minimum year of 2020, on an index and on a store that each hold a
  record dated 2021-03-04 and an undated record.
\<close>

theorem C2_year_filter_missing_and_unparseable_witness:
  "f_year year_2020 = Some 2020
   \<and> \<not> truthy (r_published_date (example_kb_row PyNone (1 / 2)))
   \<and> kb_row_keep (Some year_2020) (example_kb_row PyNone (1 / 2)) = Inr True
   \<and> hybrid_search_sync two_row_index ''graph'' (Some year_2020)
       = Inr [paper_of_row (9 / 10) (example_kb_row (PyDate 2021 3 4) (1 / 5)),
              paper_of_row (3 / 4) (example_kb_row PyNone (1 / 2))]
   \<and> (\<exists>yr. paper_year (published_date
               (paper_of_row (9 / 10) (example_kb_row (PyDate 2021 3 4) (1 / 5)))) = Inr yr
         \<and> 2020 \<le> yr)
   \<and> \<not> truthy (published_date undated_paper)
   \<and> paper_match year_2020 undated_paper = Inr True
   \<and> hybrid_search_sync two_row_store_only ''graph'' (Some year_2020)
       = Inr [dated_paper, undated_paper]
   \<and> undated_paper \<in> set [dated_paper, undated_paper]
   \<and> (\<exists>yr. paper_year (published_date dated_paper) = Inr yr \<and> 2020 \<le> yr)"
proof -
  let ?r = "example_kb_row PyNone (1 / 2)"
  let ?d = "example_kb_row (PyDate 2021 3 4) (1 / 5)"
  let ?psA = "[paper_of_row (9 / 10) ?d, paper_of_row (3 / 4) ?r]"
  let ?psB = "[dated_paper, undated_paper]"
  note y = year_2020_only
  have r_date: "\<not> truthy (r_published_date ?r)"
    by (simp add: example_kb_row_def)
  have mA: "mindsdb two_row_index (KbHybrid (escape_quotes ''graph'') 50) = Inr [?d, ?r]"
    by (simp add: two_row_index_def two_row_kb_def)
  have keep_d: "kb_row_keep (Some year_2020) ?d = Inr True"
    by (simp add: kb_row_keep_def kb_year_check_def y example_kb_row_def date_examples)
  have keep_r: "kb_row_keep (Some year_2020) ?r = Inr True"
    by (simp add: kb_row_keep_def kb_year_check_def y example_kb_row_def)
  have rel: "relevance_of_distance (r_distance ?d) = 9 / 10"
      "relevance_of_distance (r_distance ?r) = 3 / 4"
    by (simp_all add: relevance_of_distance_def example_kb_row_def)
  have kA: "kb_hybrid_search two_row_index ''graph'' (Some year_2020) = Inr ?psA"
    by (simp add: kb_hybrid_search_def mA keep_d keep_r rel)
  have dA: "truthy (published_date (paper_of_row (9 / 10) ?d))"
    by (simp add: paper_of_row_def example_kb_row_def date_examples)
  note A = C2_year_filter_missing_and_unparseable [OF y(3), where r = ?r
      and env = two_row_index and q = "''graph''" and rows = "[?d, ?r]" and ps = ?psA
      and p' = "paper_of_row (9 / 10) ?d"]
  from A r_date y have c1: "kb_row_keep (Some year_2020) ?r = Inr True"
    by simp
  from A r_date y mA kA have c2: "hybrid_search_sync two_row_index ''graph'' (Some year_2020)
      = Inr ?psA"
    by simp
  from A kA dA have c3: "\<exists>yr. paper_year (published_date (paper_of_row (9 / 10) ?d)) = Inr yr
      \<and> 2020 \<le> yr"
    by simp
  have p_date: "\<not> truthy (published_date undated_paper)"
    by (simp add: undated_paper_def paper_of_row_def example_row_def date_examples)
  have dB: "truthy (published_date dated_paper)"
    by (simp add: dated_paper_def paper_of_row_def example_row_def date_examples)
  have kB: "kb_hybrid_search two_row_store_only ''graph'' (Some year_2020) = Inl ConnectionError"
    by (simp add: kb_hybrid_search_def two_row_store_only_def kb_down_def)
  have bB: "db_hybrid_search two_row_store_only ''graph'' (Some year_2020) = Inl ExecutionError"
    by (simp add: db_hybrid_search_def db_hybrid_request_def two_row_store_only_def
        two_row_store_def)
  have rsB: "query_papers_sync two_row_store_only ''graph'' 50 = Inr ?psB"
    by (simp add: query_papers_sync_def kb_search_def text_search_def two_row_store_only_def
        kb_down_def two_row_store_def dated_paper_def undated_paper_def)
  have pmB: "paper_match year_2020 dated_paper = Inr True"
      "paper_match year_2020 undated_paper = Inr True"
    using p_date dB
    by (simp_all add: paper_match_def y)
      (simp add: dated_paper_def paper_of_row_def example_row_def date_examples)
  have hB: "hybrid_search_sync two_row_store_only ''graph'' (Some year_2020) = Inr ?psB"
    by (simp add: hybrid_last_handler [OF kB bB y(3) rsB] pmB)
  note B = C2_year_filter_missing_and_unparseable [OF y(3), where p = undated_paper
      and env = two_row_store_only and q = "''graph''" and ps = ?psB and rs = ?psB
      and ea = ConnectionError and eb = ExecutionError and p' = dated_paper]
  from B p_date y have c4: "paper_match year_2020 undated_paper = Inr True"
    by simp
  from B p_date y kB bB rsB hB have c5: "undated_paper \<in> set ?psB"
    by simp
  from B kB bB hB dB have c6: "\<exists>yr. paper_year (published_date dated_paper) = Inr yr
      \<and> 2020 \<le> yr"
    by simp
  show ?thesis
    by (intro conjI y(3) r_date c1 c2 c3 p_date c4 hB c5 c6)
qed

text \<open>
  C3. The specification has every record hybrid search returns satisfy all present filters,
  the categories filter included, whichever tier produced it. The last handler tests
  authors and year only: with every backend unreachable and the filter
  \<open>categories = math\<close>, hybrid search returns the five sample records, whose categories
  are \<open>cs.LG, cs.AI\<close>.
\<close>

theorem C3_fallback_ignores_categories:
  "hybrid_search_sync all_down ''graph'' (Some math_only) = Inr (sample_papers ''graph'' 50)
   \<and> map categories (sample_papers ''graph'' 50) = replicate 5 ''cs.LG, cs.AI''
   \<and> \<not> categories_match math_only ''cs.LG, cs.AI''"
proof -
  have down: "query_papers_sync all_down ''graph'' 50 = Inr (sample_papers ''graph'' 50)"
    by (simp add: query_papers_sync_def kb_search_def text_search_def all_down_def
        kb_down_def db_down_def)
  have "post_filter math_only (sample_papers ''graph'' 50) = Inr (sample_papers ''graph'' 50)"
    by (rule post_filter_no_author_year) (simp_all add: math_only_def)
  with down have "hybrid_search_sync all_down ''graph'' (Some math_only)
      = Inr (sample_papers ''graph'' 50)"
    by (simp add: hybrid_search_sync_def kb_hybrid_search_def db_hybrid_search_def
        all_down_def kb_down_def db_down_def filters_truthy_def math_only_def)
  moreover have "map categories (sample_papers ''graph'' 50) = replicate 5 ''cs.LG, cs.AI''"
    by (simp add: sample_papers_5 sample_paper_def numeral_eq_Suc)
  moreover have "\<not> categories_match math_only ''cs.LG, cs.AI''"
    unfolding categories_match_def math_only_def py_in_def by code_simp
  ultimately show ?thesis by simp
qed

text \<open>
  C4. Threshold search always returns a list, and every record in it has a relevance
  score of at least the threshold, whatever the backends answer. On SQL engines, which
  execute the \<open>LIMIT 50\<close> of the requests the operation sends, the list has at most 50
  records, whether the primary tier wins or the cascade falls back.
\<close>

theorem C4_threshold_and_cap:
  "(\<exists>ps. semantic_search_sync env q t = Inr ps
       \<and> list_all (\<lambda>p. t \<le> relevance_score p) ps)
   \<and> (\<exists>ps. semantic_search_sync (sql_engine raw) q t = Inr ps
       \<and> list_all (\<lambda>p. t \<le> relevance_score p) ps
       \<and> length ps \<le> 50)"
proof -
  have thr: "\<exists>ps. semantic_search_sync e q t = Inr ps
      \<and> list_all (\<lambda>p. t \<le> relevance_score p) ps" for e
  proof (cases "kb_semantic_search e q t")
    case (Inr ps)
    then show ?thesis
      by (auto simp: semantic_search_sync_def kb_semantic_search_def list_all_iff
          split: sum.splits)
  next
    case (Inl x)
    obtain rs where "query_papers_sync e q 50 = Inr rs"
      using query_papers_sync_returns by blast
    with Inl show ?thesis
      by (simp add: semantic_search_sync_def list_all_iff)
  qed
  obtain ps where ps: "semantic_search_sync (sql_engine raw) q t = Inr ps"
      "list_all (\<lambda>p. t \<le> relevance_score p) ps"
    using thr [of "sql_engine raw"] by blast
  have "length ps \<le> 50"
  proof (cases "kb_semantic_search (sql_engine raw) q t")
    case (Inr ps')
    with ps(1) have "ps' = ps"
      by (simp add: semantic_search_sync_def)
    with Inr show ?thesis
      by (rule_tac kb_semantic_search_capped) simp
  next
    case (Inl x)
    obtain rs where rs: "query_papers_sync (sql_engine raw) q 50 = Inr rs"
      using query_papers_sync_returns by blast
    then have "length rs \<le> 50"
      using query_papers_sync_capped [of raw q 50 rs] by simp
    then have "length (filter (\<lambda>r. t \<le> relevance_score r) rs) \<le> 50"
      by (rule order_trans [OF length_filter_le])
    moreover from Inl rs ps(1) have "ps = filter (\<lambda>r. t \<le> relevance_score r) rs"
      by (simp add: semantic_search_sync_def)
    ultimately show ?thesis by simp
  qed
  with ps thr [of env] show ?thesis by blast
qed

text \<open>
  C5. For every raw distance d of the primary tier the normalised relevance is
  clamp(1 - d/2, 0, 1): it lies in [0,1], is 1 at distance 0, is 0 for every distance
  at or above the normalisation constant 2, and is monotonically non-increasing in d.
\<close>

theorem C5_relevance_normalisation:
  "relevance_of_distance d = (if 1 - d / 2 < 0 then 0 else if 1 < 1 - d / 2 then 1 else 1 - d / 2)
   \<and> 0 \<le> relevance_of_distance d \<and> relevance_of_distance d \<le> 1
   \<and> relevance_of_distance 0 = 1
   \<and> (2 \<le> d \<longrightarrow> relevance_of_distance d = 0)
   \<and> (d \<le> d' \<longrightarrow> relevance_of_distance d' \<le> relevance_of_distance d)"
  by (auto simp: relevance_of_distance_def max_def min_def)

text \<open>
C5 at the distances 1/2 and 3.
\<close>

theorem C5_relevance_normalisation_witness:
  "relevance_of_distance (1/2) = 3/4
   \<and> (2::real) \<le> 3 \<and> relevance_of_distance 3 = 0
   \<and> (1/2::real) \<le> 3 \<and> relevance_of_distance 3 \<le> relevance_of_distance (1/2)"
  using C5_relevance_normalisation [of "1/2" 3] C5_relevance_normalisation [of 3 3]
  by simp

text \<open>
  C6. When the primary and the secondary tier both fail, plain search with limit 5
  returns exactly 5 sample records; their relevance scores 0.90, 0.85, 0.80, 0.75, 0.70
  are strictly decreasing with rank and all above zero; their identifiers
  \<open>arxiv-sample-1\<close> to \<open>arxiv-sample-5\<close> carry the prefix \<open>arxiv-sample-\<close>.
\<close>

theorem C6_full_fallback_limit_5:
  assumes "kb_search env q 5 = Inl e1" and "text_search env q 5 = Inl e2"
  shows "\<exists>ps. query_papers_sync env q 5 = Inr ps \<and> length ps = 5
     \<and> sorted_wrt (\<lambda>a b. b < a) (map relevance_score ps)
     \<and> list_all (\<lambda>p. 0 < relevance_score p) ps
     \<and> list_all (\<lambda>p. startswith (entry_id p) ''arxiv-sample-'') ps
     \<and> map relevance_score ps = [9 / 10, 17 / 20, 4 / 5, 3 / 4, 7 / 10]
     \<and> map entry_id ps =
         [''arxiv-sample-1'', ''arxiv-sample-2'', ''arxiv-sample-3'', ''arxiv-sample-4'',
          ''arxiv-sample-5'']"
proof -
  let ?ps = "sample_papers q 5"
  have res: "query_papers_sync env q 5 = Inr ?ps"
    using assms by (rule both_tiers_fail)
  have len: "length ?ps = 5"
    by (simp add: sample_papers_length)
  have scores: "map relevance_score ?ps = [9 / 10, 17 / 20, 4 / 5, 3 / 4, 7 / 10]"
    by (simp add: sample_papers_scores)
  have ids: "map entry_id ?ps =
      [''arxiv-sample-1'', ''arxiv-sample-2'', ''arxiv-sample-3'', ''arxiv-sample-4'',
       ''arxiv-sample-5'']"
    by (simp add: sample_papers_ids)
  have decr: "sorted_wrt (\<lambda>a b. b < a) (map relevance_score ?ps)"
    unfolding scores by simp
  have pos: "list_all (\<lambda>p. 0 < relevance_score p) ?ps"
    by (simp add: sample_papers_5 sample_paper_def)
  have pre: "list_all (\<lambda>p. startswith (entry_id p) ''arxiv-sample-'') ?ps"
    by (simp add: sample_papers_def list_all_iff sample_paper_prefix)
  show ?thesis
    by (intro exI [of _ "sample_papers q 5"] conjI res len decr pos pre scores ids)
qed

text \<open>
C6 with both services unreachable.
\<close>

theorem C6_full_fallback_limit_5_witness:
  "kb_search all_down ''anything'' 5 = Inl ConnectionError
   \<and> text_search all_down ''anything'' 5 = Inl ConnectionError
   \<and> (\<exists>ps. query_papers_sync all_down ''anything'' 5 = Inr ps \<and> length ps = 5
     \<and> sorted_wrt (\<lambda>a b. b < a) (map relevance_score ps)
     \<and> list_all (\<lambda>p. 0 < relevance_score p) ps
     \<and> list_all (\<lambda>p. startswith (entry_id p) ''arxiv-sample-'') ps
     \<and> map relevance_score ps = [9 / 10, 17 / 20, 4 / 5, 3 / 4, 7 / 10]
     \<and> map entry_id ps =
         [''arxiv-sample-1'', ''arxiv-sample-2'', ''arxiv-sample-3'', ''arxiv-sample-4'',
          ''arxiv-sample-5''])"
proof -
  have h1: "kb_search all_down ''anything'' 5 = Inl ConnectionError"
    by (simp add: kb_search_def all_down_def kb_down_def)
  have h2: "text_search all_down ''anything'' 5 = Inl ConnectionError"
    by (simp add: text_search_def all_down_def db_down_def)
  show ?thesis
    by (rule conjI [OF h1 conjI [OF h2 C6_full_fallback_limit_5 [OF h1 h2]]])
qed

text \<open>
  C7. If the primary tier completes without raising, the result of the operation is
  that tier's output (for plain search: the rows of the index, each with its normalised
  relevance), also when it is empty, and it is the same whatever the secondary store would
  answer: no lower tier is consulted. This holds for plain, threshold and hybrid search.
\<close>

theorem C7_cascade_stops_at_primary:
  "(mindsdb env (KbPlain (escape_quotes q) n) = Inr rows
      \<longrightarrow> query_papers_sync (env\<lparr>duckdb := d\<rparr>) q n
            = Inr (map (\<lambda>r. paper_of_row (relevance_of_distance (r_distance r)) r) rows))
   \<and> (kb_semantic_search env q t = Inr ps
      \<longrightarrow> semantic_search_sync (env\<lparr>duckdb := d\<rparr>) q t = Inr ps)
   \<and> (kb_hybrid_search env q mf = Inr ps'
      \<longrightarrow> hybrid_search_sync (env\<lparr>duckdb := d\<rparr>) q mf = Inr ps')"
  by (simp add: query_papers_sync_def kb_search_def semantic_search_sync_def
      kb_semantic_search_def hybrid_search_sync_def kb_hybrid_search_def)

text \<open>
  C7 on an index that answers with no rows while the store has a hit: all three
  operations return the empty list.
\<close>

theorem C7_cascade_stops_at_primary_witness:
  "mindsdb empty_index (KbPlain (escape_quotes ''graph'') 10) = Inr []
   \<and> kb_semantic_search empty_index ''graph'' (7 / 10) = Inr []
   \<and> kb_hybrid_search empty_index ''graph'' None = Inr []
   \<and> duckdb empty_index (DbPlain (escape_quotes ''graph'') 10)
       = Inr [example_row (PyStr ''2021-03-04'')]
   \<and> query_papers_sync empty_index ''graph'' 10 = Inr []
   \<and> semantic_search_sync empty_index ''graph'' (7 / 10) = Inr []
   \<and> hybrid_search_sync empty_index ''graph'' None = Inr []"
proof -
  have h1: "mindsdb empty_index (KbPlain (escape_quotes ''graph'') 10) = Inr []"
    by (simp add: empty_index_def kb_empty_def)
  have h2: "kb_semantic_search empty_index ''graph'' (7 / 10) = Inr []"
    by (simp add: kb_semantic_search_def empty_index_def kb_empty_def)
  have h3: "kb_hybrid_search empty_index ''graph'' None = Inr []"
    by (simp add: kb_hybrid_search_def empty_index_def kb_empty_def)
  have h4: "duckdb empty_index (DbPlain (escape_quotes ''graph'') 10)
      = Inr [example_row (PyStr ''2021-03-04'')]"
    by (simp add: empty_index_def db_one_hit_def)
  have same: "empty_index\<lparr>duckdb := duckdb empty_index\<rparr> = empty_index"
    by simp
  show ?thesis
    using h1 h2 h3 h4
      C7_cascade_stops_at_primary [of empty_index "''graph''" 10 "[]" "duckdb empty_index"
        "7 / 10" "[]" None "[]"]
    unfolding same by simp
qed

text \<open>
  C8, as stated, fails: with the index unreachable and the same store hit, the lexical
  tier of plain search scores the record 0.75 and the lexical tier of hybrid search
  scores it 0.85.
\<close>

theorem C8_lexical_scores_differ:
  "query_papers_sync lexical_only ''graph'' 10
     = Inr [paper_of_row (75 / 100) (example_row (PyStr ''2021-03-04''))]
   \<and> hybrid_search_sync lexical_only ''graph'' None
     = Inr [paper_of_row (85 / 100) (example_row (PyStr ''2021-03-04''))]
   \<and> relevance_score (paper_of_row (75 / 100) (example_row (PyStr ''2021-03-04'')))
     \<noteq> relevance_score (paper_of_row (85 / 100) (example_row (PyStr ''2021-03-04'')))"
  by (simp add: query_papers_sync_def kb_search_def text_search_def hybrid_search_sync_def
      kb_hybrid_search_def db_hybrid_search_def lexical_only_def kb_down_def db_one_hit_def
      paper_of_row_def)

text \<open>
  C8, amended. Every record of a lexical tier carries that operation's fixed constant:
  0.75 in the lexical tier of plain search, 0.85 in the lexical tier of hybrid search.
\<close>

theorem C8_lexical_constant_per_operation:
  "(text_search env q n = Inr ps \<longrightarrow> list_all (\<lambda>p. relevance_score p = 75 / 100) ps)
   \<and> (db_hybrid_search env q mf = Inr ps'
        \<longrightarrow> list_all (\<lambda>p. relevance_score p = 85 / 100) ps')"
  by (auto simp: text_search_def db_hybrid_search_def list_all_iff paper_of_row_def
      split: sum.splits)

text \<open>
The amended C8 on the store with one hit.
\<close>

theorem C8_lexical_constant_per_operation_witness:
  "text_search lexical_only ''graph'' 10
     = Inr [paper_of_row (75 / 100) (example_row (PyStr ''2021-03-04''))]
   \<and> list_all (\<lambda>p. relevance_score p = 75 / 100)
       [paper_of_row (75 / 100) (example_row (PyStr ''2021-03-04''))]
   \<and> db_hybrid_search lexical_only ''graph'' None
     = Inr [paper_of_row (85 / 100) (example_row (PyStr ''2021-03-04''))]
   \<and> list_all (\<lambda>p. relevance_score p = 85 / 100)
       [paper_of_row (85 / 100) (example_row (PyStr ''2021-03-04''))]"
proof -
  let ?a = "[paper_of_row (75 / 100) (example_row (PyStr ''2021-03-04''))]"
  let ?b = "[paper_of_row (85 / 100) (example_row (PyStr ''2021-03-04''))]"
  have h1: "text_search lexical_only ''graph'' 10 = Inr ?a"
    by (simp add: text_search_def lexical_only_def db_one_hit_def)
  have h2: "db_hybrid_search lexical_only ''graph'' None = Inr ?b"
    by (simp add: db_hybrid_search_def lexical_only_def db_one_hit_def)
  have c: "(text_search lexical_only ''graph'' 10 = Inr ?a
        \<longrightarrow> list_all (\<lambda>p. relevance_score p = 75 / 100) ?a)
      \<and> (db_hybrid_search lexical_only ''graph'' None = Inr ?b
        \<longrightarrow> list_all (\<lambda>p. relevance_score p = 85 / 100) ?b)"
    by (rule C8_lexical_constant_per_operation)
  from c h1 have c1: "list_all (\<lambda>p. relevance_score p = 75 / 100) ?a" by blast
  from c h2 have c2: "list_all (\<lambda>p. relevance_score p = 85 / 100) ?b" by blast
  show ?thesis by (intro conjI h1 h2 c1 c2)
qed

text \<open>
  C9. The point lookup never raises. When the store answers with no row for the
  identifier the result is \<open>None\<close>; when the store fails and the identifier does not
  start with \<open>arxiv-\<close> the result is \<open>None\<close>; and a returned record is either built
  from a row of the store or is the sample record, the latter only for an identifier
  starting with \<open>arxiv-\<close> (and only when the store failed).
\<close>

theorem C9_point_lookup:
  "(\<exists>res. get_paper_by_id_sync env eid = Inr res)
   \<and> (duckdb env (DbById (escape_quotes eid)) = Inr []
        \<longrightarrow> get_paper_by_id_sync env eid = Inr None)
   \<and> (duckdb env (DbById (escape_quotes eid)) = Inl e \<and> \<not> startswith eid ''arxiv-''
        \<longrightarrow> get_paper_by_id_sync env eid = Inr None)
   \<and> (get_paper_by_id_sync env eid = Inr (Some p)
        \<longrightarrow> (\<exists>r rs. duckdb env (DbById (escape_quotes eid)) = Inr (r # rs) \<and> p = meta_of_row r)
            \<or> (startswith eid ''arxiv-'' \<and> p = sample_meta eid
                \<and> (\<exists>e'. duckdb env (DbById (escape_quotes eid)) = Inl e')))"
  by (auto simp: get_paper_by_id_sync_def split: sum.splits list.splits if_splits)

text \<open>
  C9 at \<open>arxiv-sample-1\<close> on a reachable store without it, and at \<open>does-not-exist\<close>
  and \<open>arxiv-sample-1\<close> on an unreachable store.
\<close>

theorem C9_point_lookup_witness:
  "duckdb text_store_only (DbById (escape_quotes ''arxiv-sample-1'')) = Inr []
   \<and> get_paper_by_id_sync text_store_only ''arxiv-sample-1'' = Inr None
   \<and> duckdb all_down (DbById (escape_quotes ''does-not-exist'')) = Inl ConnectionError
   \<and> \<not> startswith ''does-not-exist'' ''arxiv-''
   \<and> get_paper_by_id_sync all_down ''does-not-exist'' = Inr None
   \<and> get_paper_by_id_sync all_down ''arxiv-sample-1'' = Inr (Some (sample_meta ''arxiv-sample-1''))
   \<and> startswith ''arxiv-sample-1'' ''arxiv-''"
proof -
  have h1: "duckdb text_store_only (DbById (escape_quotes ''arxiv-sample-1'')) = Inr []"
    by (simp add: text_store_only_def text_store_def)
  have h2: "duckdb all_down (DbById (escape_quotes ''does-not-exist'')) = Inl ConnectionError"
    by (simp add: all_down_def db_down_def)
  have h3: "\<not> startswith ''does-not-exist'' ''arxiv-''"
    by (simp add: startswith_def)
  have h4: "get_paper_by_id_sync all_down ''arxiv-sample-1''
      = Inr (Some (sample_meta ''arxiv-sample-1''))"
    by (simp add: get_paper_by_id_sync_def all_down_def db_down_def startswith_def)
  have c1: "get_paper_by_id_sync text_store_only ''arxiv-sample-1'' = Inr None"
    using h1 C9_point_lookup [of text_store_only "''arxiv-sample-1''"] by blast
  have c2: "get_paper_by_id_sync all_down ''does-not-exist'' = Inr None"
    using h2 h3 C9_point_lookup [of all_down "''does-not-exist''" ConnectionError] by blast
  have c3: "startswith ''arxiv-sample-1'' ''arxiv-''"
    using h4 h2 C9_point_lookup [of all_down "''arxiv-sample-1''" _
        "sample_meta ''arxiv-sample-1''"]
    by (auto simp: all_down_def db_down_def)
  show ?thesis by (intro conjI h1 h2 h3 h4 c1 c2 c3)
qed

text \<open>
  C10. The sample batch has exactly min(limit, 5) records (none for a limit below
  zero): its size is capped at 5 whatever the limit, so when both real tiers fail and
  more than 5 results are requested, plain search returns exactly 5 records, fewer than
  requested.
\<close>

theorem C10_fallback_batch_size:
  "length (sample_papers q limit) = nat (min limit 5)
   \<and> (0 \<le> limit \<longrightarrow> int (length (sample_papers q limit)) = min limit 5)
   \<and> (5 < limit \<and> kb_search env q limit = Inl e1 \<and> text_search env q limit = Inl e2
        \<longrightarrow> (\<exists>ps. query_papers_sync env q limit = Inr ps \<and> length ps = 5
               \<and> int (length ps) < limit))"
  by (auto simp: sample_papers_length both_tiers_fail)

text \<open>
C10 at the limits 10 and 3 with both services unreachable.
\<close>

theorem C10_fallback_batch_size_witness:
  "length (sample_papers ''anything'' 10) = 5
   \<and> (0::int) \<le> 3 \<and> int (length (sample_papers ''anything'' 3)) = 3
   \<and> (5::int) < 10 \<and> kb_search all_down ''anything'' 10 = Inl ConnectionError
   \<and> text_search all_down ''anything'' 10 = Inl ConnectionError
   \<and> (\<exists>ps. query_papers_sync all_down ''anything'' 10 = Inr ps \<and> length ps = 5
         \<and> int (length ps) < 10)"
proof -
  have h1: "kb_search all_down ''anything'' 10 = Inl ConnectionError"
    by (simp add: kb_search_def all_down_def kb_down_def)
  have h2: "text_search all_down ''anything'' 10 = Inl ConnectionError"
    by (simp add: text_search_def all_down_def db_down_def)
  show ?thesis
    using h1 h2
      C10_fallback_batch_size [of "''anything''" 10 all_down ConnectionError ConnectionError]
      C10_fallback_batch_size [of "''anything''" 3 all_down ConnectionError ConnectionError]
    by simp
qed

end
